theory Spec2Isabelle
  imports Complex_Main "HOL-Library.Word"
begin

section \<open>Chapters of the PDF creator (pdf/creator/chapters.go)\<close>

text \<open>
  A shallow embedding of \<^verbatim>\<open>chapters.go\<close>. A chapter owns a heading paragraph and an
  ordered list of drawables; \<^verbatim>\<open>GeneratePageBlocks\<close> lays the heading out, records the
  chapter in the table of contents and then folds the blocks of every content item into
  the running list of page blocks.

  Conventions of the embedding:
  \<^item> Go's \<^verbatim>\<open>int\<close> is taken at its 64-bit width: a \<open>64 word\<close> whose \<open>+\<close> wraps
    around as \<^verbatim>\<open>ctx.Page++\<close> does, read as a signed number by \<open>sint\<close>.
  \<^item> Where a \<^verbatim>\<open>float64\<close> is only stored or added (positions, margins, heights) it is a
    type parameter \<open>'f\<close> with a zero and an addition of which no law is assumed. For
    \<^verbatim>\<open>math.Max\<close> the values are told apart as its documentation does: NaN, the two
    infinities and the finite numbers.
  \<^item> A \<^verbatim>\<open>*Block\<close> is a value of a type parameter \<open>'b\<close>; \<^verbatim>\<open>mergeBlocks\<close>, which changes
    the receiving block in place, is a parameter \<open>M\<close> giving the merged block. The
    blocks that the collaborators hand back are taken to be distinct objects.
  \<^item> Every call through the \<^verbatim>\<open>Drawable\<close> interface is a parameter of the model: the
    code of paragraphs, images, blocks and subchapters is not part of this file.
  \<^item> A run-time panic (index out of range) is a result of its own, \<open>Panic\<close>.
\<close>

subsection \<open>Data\<close>

type_synonym go_int = "64 word"

type_synonym ptr = nat

text \<open>
  A value of the interface type \<^verbatim>\<open>Drawable\<close>: its dynamic type together with the
  pointer it holds. Interface equality in Go compares exactly these two components.
  \<open>OtherDrawable\<close> stands for every implementation outside this package's five kinds
  (numbered by \<open>nat\<close>), \<open>NilDrawable\<close> for the nil interface value.
\<close>

datatype Drawable =
    ChapterPtr ptr
  | ParagraphPtr ptr
  | ImagePtr ptr
  | BlockPtr ptr
  | SubchapterPtr ptr
  | OtherDrawable nat ptr
  | NilDrawable

datatype positioning = positionRelative | positionAbsolute

datatype Sizing = SizingGeneral | SizingOccupyAvailableSpace

datatype font = Helvetica | OtherFont nat

record 'f margins =
  mleft :: 'f
  mright :: 'f
  mtop :: 'f
  mbottom :: 'f

text \<open>
  Modelled from the spec: the type \<^verbatim>\<open>paragraph\<close> is declared outside this file. Of a
  paragraph the chapter only sets the text, the font size and the font.
\<close>

record Paragraph =
  ptext :: string
  fontSize :: nat
  pfont :: font

record 'f Chapter =
  number :: go_int
  title :: string
  heading :: Paragraph
  subchapters :: go_int
  contents :: "Drawable list"
  showNumbering :: bool
  includeInTOC :: bool
  positioning :: positioning
  xPos :: 'f
  yPos :: 'f
  margins :: "'f margins"
  sizing :: Sizing
  toc :: ptr

text \<open>
  Modelled from the spec: \<^verbatim>\<open>DrawContext\<close> is declared outside this file. It carries the
  current page index; everything else it holds (cursor, page size, margins) is the
  field \<open>Rest\<close>, which this file never reads or writes.
\<close>

record 'x DrawContext =
  Page :: go_int
  Rest :: 'x

text \<open>
  Modelled from the spec: the table of contents is declared outside this file. It is a
  sink of entries (title, number, indent level, page) kept in the order in which they are
  recorded; \<^verbatim>\<open>add\<close> never fails and returns nothing.
\<close>

type_synonym toc_entry = "string \<times> go_int \<times> go_int \<times> go_int"

type_synonym TableOfContents = "toc_entry list"

definition toc_add :: "TableOfContents \<Rightarrow> string \<Rightarrow> go_int \<Rightarrow> go_int \<Rightarrow> go_int \<Rightarrow> TableOfContents" where
  "toc_add t ttl num lvl pg = t @ [(ttl, num, lvl, pg)]"

subsection \<open>Collaborators\<close>

text \<open>
  What a call \<^verbatim>\<open>GeneratePageBlocks(ctx)\<close> gives back: the blocks, the context and the
  error (\<open>None\<close> is Go's \<^verbatim>\<open>nil\<close>).
\<close>

type_synonym ('b, 'x, 'e) generated = "'b list \<times> 'x DrawContext \<times> 'e option"

text \<open>
  The heading is a paragraph; \<open>H\<close> is the paragraph's \<^verbatim>\<open>GeneratePageBlocks\<close>.
\<close>

type_synonym ('b, 'x, 'e) headingGen = "Paragraph \<Rightarrow> 'x DrawContext \<Rightarrow> ('b, 'x, 'e) generated"

text \<open>
  \<open>G d ctx\<close> is the call \<^verbatim>\<open>d.GeneratePageBlocks(ctx)\<close> on a content item. An item may be
  a subchapter, which records itself in the same table of contents: the second component
  is the list of entries the call records there, in order. The table of contents is a
  sink: no collaborator reads it.
\<close>

type_synonym ('b, 'x, 'e) itemGen =
  "Drawable \<Rightarrow> 'x DrawContext \<Rightarrow> ('b, 'x, 'e) generated \<times> toc_entry list"

subsection \<open>GeneratePageBlocks\<close>

datatype ('b, 'x, 'e) result =
    Panic
  | Returned "'b list" "'x DrawContext" "'e option"

text \<open>
  Lines 159 to 165: the heading is generated with the incoming context, and \<^verbatim>\<open>ctx\<close> is
  rebound to the context the heading returns. An error returns at once (\<open>Inl\<close>). More
  than one block means the heading moved to a new page, and the page index is incremented.
\<close>

definition headingStep ::
  "('b, 'x, 'e) headingGen \<Rightarrow> 'f Chapter \<Rightarrow> 'x DrawContext \<Rightarrow>
     ('b, 'x, 'e) generated + ('b list \<times> 'x DrawContext)" where
  "headingStep H chap ctx0 =
     (case H (heading chap) ctx0 of (blocks, ctx, err) \<Rightarrow>
        if err \<noteq> None then Inl (blocks, ctx, err)
        else if length blocks > 1 then Inr (blocks, ctx\<lparr>Page := Page ctx + 1\<rparr>)
        else Inr (blocks, ctx))"

text \<open>Lines 167 to 170: the entry of the chapter, at indent level 0.\<close>

definition tocStep :: "'f Chapter \<Rightarrow> 'x DrawContext \<Rightarrow> TableOfContents \<Rightarrow> TableOfContents" where
  "tocStep chap ctx t =
     (if includeInTOC chap then toc_add t (title chap) (number chap) 0 (Page ctx) else t)"

text \<open>
  One iteration of the loop of lines 172 to 186, given what the item's call returned.
  \<^verbatim>\<open>blocks[len(blocks)-1]\<close> on an empty slice is an index out of range.
\<close>

datatype ('b, 'x, 'e) iteration =
    Continue "'b list" "'x DrawContext"
  | ReturnError "'b list" "'x DrawContext" "'e option"
  | IndexPanic

definition loopBody ::
  "('b \<Rightarrow> 'b \<Rightarrow> 'b) \<Rightarrow> ('b, 'x, 'e) generated \<Rightarrow> 'b list \<Rightarrow> 'x DrawContext \<Rightarrow>
     ('b, 'x, 'e) iteration" where
  "loopBody M g blocks ctx =
     (case g of (newBlocks, c, err) \<Rightarrow>
        if err \<noteq> None then ReturnError blocks ctx err
        else if length newBlocks < 1 then Continue blocks ctx
        else if length blocks = 0 then IndexPanic
        else Continue
               (blocks[length blocks - 1 := M (blocks ! (length blocks - 1)) (newBlocks ! 0)]
                  @ drop 1 newBlocks)
               c)"

fun contentLoop ::
  "('b \<Rightarrow> 'b \<Rightarrow> 'b) \<Rightarrow> ('b, 'x, 'e) itemGen \<Rightarrow> Drawable list \<Rightarrow> 'b list \<Rightarrow>
     'x DrawContext \<Rightarrow> TableOfContents \<Rightarrow> ('b, 'x, 'e) result \<times> TableOfContents" where
  "contentLoop M G [] blocks ctx t = (Returned blocks ctx None, t)"
| "contentLoop M G (d # ds) blocks ctx t =
     (case G d ctx of (g, recorded) \<Rightarrow>
        (case loopBody M g blocks ctx of
           ReturnError bs c err \<Rightarrow> (Returned bs c err, t @ recorded)
         | IndexPanic \<Rightarrow> (Panic, t @ recorded)
         | Continue bs c \<Rightarrow> contentLoop M G ds bs c (t @ recorded)))"

definition GeneratePageBlocks ::
  "('b, 'x, 'e) headingGen \<Rightarrow> ('b \<Rightarrow> 'b \<Rightarrow> 'b) \<Rightarrow> ('b, 'x, 'e) itemGen \<Rightarrow> 'f Chapter \<Rightarrow>
     'x DrawContext \<Rightarrow> TableOfContents \<Rightarrow> ('b, 'x, 'e) result \<times> TableOfContents" where
  "GeneratePageBlocks H M G chap ctx0 t =
     (case headingStep H chap ctx0 of
        Inl (blocks, ctx, err) \<Rightarrow> (Returned blocks ctx err, t)
      | Inr (blocks, ctx) \<Rightarrow> contentLoop M G (contents chap) blocks ctx (tocStep chap ctx t))"

subsection \<open>Construction and configuration\<close>

text \<open>
  \<^verbatim>\<open>fmt.Sprintf("%d", n)\<close> on an \<^verbatim>\<open>int\<close>: the decimal digits, after a minus sign for a
  negative number.
\<close>

definition digitChar :: "nat \<Rightarrow> char" where
  "digitChar n = ''0123456789'' ! n"

fun fmtNat :: "nat \<Rightarrow> string" where
  "fmtNat n = (if n < 10 then [digitChar n] else fmtNat (n div 10) @ [digitChar (n mod 10)])"

definition fmtInt :: "go_int \<Rightarrow> string" where
  "fmtInt i = (if sint i < 0 then CHR ''-'' # fmtNat (nat (- sint i)) else fmtNat (nat (sint i)))"

text \<open>\<^verbatim>\<open>fmt.Sprintf("%d. %s", number, title)\<close>\<close>

definition numberedHeading :: "go_int \<Rightarrow> string \<Rightarrow> string" where
  "numberedHeading n ttl = fmtInt n @ ''. '' @ ttl"

text \<open>
  Modelled from the spec: the creator is declared outside this file. \<^verbatim>\<open>NewChapter\<close> uses
  its running chapter counter and its reference to the table of contents.
\<close>

record Creator =
  chapters :: go_int
  ctoc :: ptr

definition SetText :: "string \<Rightarrow> Paragraph \<Rightarrow> Paragraph" where
  "SetText s p = p\<lparr>ptext := s\<rparr>"

text \<open>
  Lines 48 to 73. The new chapter starts from Go's zero value: relative positioning,
  coordinates and margins zero, no subchapters. The counter of the creator is incremented,
  so the updated creator is returned with the chapter.
\<close>

definition NewChapter :: "Creator \<Rightarrow> string \<Rightarrow> ('f::zero) Chapter \<times> Creator" where
  "NewChapter c ttl =
     (let c' = c\<lparr>chapters := chapters c + 1\<rparr>;
          p = \<lparr>ptext = numberedHeading (chapters c') ttl, fontSize = 16, pfont = Helvetica\<rparr>
      in (\<lparr>number = chapters c', title = ttl, heading = p, subchapters = 0,
            contents = [], showNumbering = True, includeInTOC = True,
            positioning = positionRelative, xPos = 0, yPos = 0,
            margins = \<lparr>mleft = 0, mright = 0, mtop = 0, mbottom = 0\<rparr>,
            sizing = SizingOccupyAvailableSpace, toc = ctoc c'\<rparr>, c'))"

text \<open>Lines 76 to 85.\<close>

definition SetShowNumbering :: "bool \<Rightarrow> 'f Chapter \<Rightarrow> 'f Chapter" where
  "SetShowNumbering show chap =
     (if show
      then chap\<lparr>heading := SetText (numberedHeading (number chap) (title chap)) (heading chap),
                showNumbering := show\<rparr>
      else chap\<lparr>heading := SetText (title chap) (heading chap), showNumbering := show\<rparr>)"

definition SetIncludeInTOC :: "bool \<Rightarrow> 'f Chapter \<Rightarrow> 'f Chapter" where
  "SetIncludeInTOC b chap = chap\<lparr>includeInTOC := b\<rparr>"

definition GetHeading :: "'f Chapter \<Rightarrow> Paragraph" where
  "GetHeading chap = heading chap"

definition GetSizingMechanism :: "'f Chapter \<Rightarrow> Sizing" where
  "GetSizingMechanism chap = sizing chap"

definition SetPos :: "'f \<Rightarrow> 'f \<Rightarrow> 'f Chapter \<Rightarrow> 'f Chapter" where
  "SetPos x y chap = chap\<lparr>positioning := positionAbsolute, xPos := x, yPos := y\<rparr>"

definition SetMargins :: "'f \<Rightarrow> 'f \<Rightarrow> 'f \<Rightarrow> 'f \<Rightarrow> 'f Chapter \<Rightarrow> 'f Chapter" where
  "SetMargins l r t b chap =
     chap\<lparr>margins := \<lparr>mleft = l, mright = r, mtop = t, mbottom = b\<rparr>\<rparr>"

definition GetMargins :: "'f Chapter \<Rightarrow> 'f \<times> 'f \<times> 'f \<times> 'f" where
  "GetMargins chap =
     (mleft (margins chap), mright (margins chap), mtop (margins chap), mbottom (margins chap))"

subsection \<open>Size\<close>

text \<open>
  Lines 102 to 117. \<open>hgt d\<close> and \<open>wd d\<close> are the calls \<^verbatim>\<open>d.Height()\<close> and
  \<^verbatim>\<open>d.Width()\<close> on a content item; the loops run over the contents from left to right.
\<close>

definition Height :: "(Drawable \<Rightarrow> 'f) \<Rightarrow> ('f::{zero,plus}) Chapter \<Rightarrow> 'f" where
  "Height hgt chap = foldl (\<lambda>h d. h + hgt d) 0 (contents chap)"

text \<open>
  The values of a \<^verbatim>\<open>float64\<close> as far as \<^verbatim>\<open>math.Max\<close> tells them apart (the two zeros
  are one finite number here), and \<^verbatim>\<open>math.Max\<close> as the Go library documents it:
  \<^verbatim>\<open>Max(x, +Inf) = Max(+Inf, x) = +Inf\<close>, then \<^verbatim>\<open>Max(x, NaN) = Max(NaN, x) = NaN\<close>,
  otherwise the larger of the two.
\<close>

datatype float64 = NaN | PosInf | NegInf | Finite real

definition mathMax :: "float64 \<Rightarrow> float64 \<Rightarrow> float64" where
  "mathMax x y =
     (if x = PosInf \<or> y = PosInf then PosInf
      else if x = NaN \<or> y = NaN then NaN
      else case x of
          Finite a \<Rightarrow> (case y of Finite b \<Rightarrow> Finite (max a b) | _ \<Rightarrow> x)
        | _ \<Rightarrow> y)"

definition Width :: "(Drawable \<Rightarrow> float64) \<Rightarrow> 'f Chapter \<Rightarrow> float64" where
  "Width wd chap = foldl (\<lambda>maxW d. mathMax maxW (wd d)) (Finite 0) (contents chap)"

subsection \<open>Add\<close>

text \<open>
  Lines 140 to 154. \<open>self\<close> is the address of the receiver: \<^verbatim>\<open>Drawable(chap) == d\<close> holds
  when \<open>d\<close> is a chapter pointer to that address. The method returns nothing; what it
  writes to the debug log is the second component.
\<close>

datatype logLine = CannotAddItself | CannotAddChapter | Unsupported Drawable

definition Add :: "ptr \<Rightarrow> Drawable \<Rightarrow> 'f Chapter \<Rightarrow> 'f Chapter \<times> logLine list" where
  "Add self d chap =
     (if ChapterPtr self = d then (chap, [CannotAddItself])
      else case d of
          ChapterPtr _ \<Rightarrow> (chap, [CannotAddChapter])
        | ParagraphPtr _ \<Rightarrow> (chap\<lparr>contents := contents chap @ [d]\<rparr>, [])
        | ImagePtr _ \<Rightarrow> (chap\<lparr>contents := contents chap @ [d]\<rparr>, [])
        | BlockPtr _ \<Rightarrow> (chap\<lparr>contents := contents chap @ [d]\<rparr>, [])
        | SubchapterPtr _ \<Rightarrow> (chap\<lparr>contents := contents chap @ [d]\<rparr>, [])
        | _ \<Rightarrow> (chap, [Unsupported d]))"

text \<open>The kinds that the type switch of \<^verbatim>\<open>Add\<close> accepts.\<close>

fun accepted :: "Drawable \<Rightarrow> bool" where
  "accepted (ParagraphPtr _) = True"
| "accepted (ImagePtr _) = True"
| "accepted (BlockPtr _) = True"
| "accepted (SubchapterPtr _) = True"
| "accepted _ = False"

text \<open>A sequence of calls of the configuration methods and of \<^verbatim>\<open>Add\<close> on one chapter.\<close>

datatype 'f call =
    CallSetShowNumbering bool
  | CallSetIncludeInTOC bool
  | CallSetPos 'f 'f
  | CallSetMargins 'f 'f 'f 'f
  | CallAdd Drawable

fun perform :: "ptr \<Rightarrow> 'f call \<Rightarrow> 'f Chapter \<Rightarrow> 'f Chapter" where
  "perform self (CallSetShowNumbering b) chap = SetShowNumbering b chap"
| "perform self (CallSetIncludeInTOC b) chap = SetIncludeInTOC b chap"
| "perform self (CallSetPos x y) chap = SetPos x y chap"
| "perform self (CallSetMargins l r t b) chap = SetMargins l r t b chap"
| "perform self (CallAdd d) chap = fst (Add self d chap)"

definition performAll :: "ptr \<Rightarrow> 'f call list \<Rightarrow> 'f Chapter \<Rightarrow> 'f Chapter" where
  "performAll self cs chap = foldl (\<lambda>ch c. perform self c ch) chap cs"


subsection \<open>Example inputs\<close>

text \<open>
  The scenario of the specification: the first chapter of a document, titled Intro, at
  address 100, holding one paragraph. Example blocks are lists of text lines and merging
  appends them; the remaining fields of the context are empty.
\<close>

definition exCreator :: Creator where
  "exCreator = \<lparr>chapters = 0, ctoc = 7\<rparr>"

definition exIntro :: "int Chapter" where
  "exIntro = fst (Add 100 (ParagraphPtr 1) (fst (NewChapter exCreator ''Intro'')))"

definition exCtx :: "unit DrawContext" where
  "exCtx = \<lparr>Page = 0, Rest = ()\<rparr>"

definition exMerge :: "string list \<Rightarrow> string list \<Rightarrow> string list" where
  "exMerge a b = a @ b"

text \<open>A heading that yields no block, one that fits, and one that moves to a new page.\<close>

definition exHeadingNone :: "(string list, unit, string) headingGen" where
  "exHeadingNone p ctx = ([], ctx, None)"

definition exHeadingFits :: "(string list, unit, string) headingGen" where
  "exHeadingFits p ctx = ([[ptext p]], ctx, None)"

definition exHeadingNewPage :: "(string list, unit, string) headingGen" where
  "exHeadingNewPage p ctx = ([[], [ptext p]], ctx\<lparr>Page := Page ctx + 1\<rparr>, None)"

text \<open>A heading that needs two blocks and hands the context back as it received it.\<close>

definition exHeadingSplit :: "(string list, unit, string) headingGen" where
  "exHeadingSplit p ctx = ([[], [ptext p]], ctx, None)"

text \<open>
  Content items: a subchapter yields one block and records its own entry; an image fails,
  handing back a block and a changed context all the same; a pre-rendered block yields no
  page block, with a changed context; anything else yields one block of body text.
\<close>

definition exItem :: "(string list, unit, string) itemGen" where
  "exItem d ctx =
     (case d of
        SubchapterPtr n \<Rightarrow> (([[''sub'']], ctx, None), [(''Sub'', 1, 1, Page ctx)])
      | ImagePtr n \<Rightarrow> (([[''lost'']], ctx\<lparr>Page := Page ctx + 1\<rparr>, Some ''cannot draw''), [])
      | BlockPtr n \<Rightarrow> (([], ctx\<lparr>Page := Page ctx + 1\<rparr>, None), [])
      | _ \<Rightarrow> (([[''body'']], ctx, None), []))"

text \<open>A chapter holding a subchapter, an image and a paragraph, in this order.\<close>

definition exReport :: "int Chapter" where
  "exReport =
     fst (Add 100 (ParagraphPtr 3)
       (fst (Add 100 (ImagePtr 2)
         (fst (Add 100 (SubchapterPtr 4) (fst (NewChapter exCreator ''Report'')))))))"

text \<open>A chapter without content, and a context on the last page an \<^verbatim>\<open>int\<close> can count.\<close>

definition exEmpty :: "int Chapter" where
  "exEmpty = fst (NewChapter exCreator ''Empty'')"

definition exCtxLastPage :: "unit DrawContext" where
  "exCtxLastPage = \<lparr>Page = 9223372036854775807, Rest = ()\<rparr>"

text \<open>
  A content item that needs two blocks and, as it moved to a new page, hands back the
  context of that page.
\<close>

definition exItemNewPage :: "(string list, unit, string) itemGen" where
  "exItemNewPage d ctx = (([[], [''body'']], ctx\<lparr>Page := Page ctx + 1\<rparr>, None), [])"

text \<open>Reported sizes: every item is 12 high; the widths are 40, or -1 for a paragraph.\<close>

definition exHeight :: "Drawable \<Rightarrow> int" where
  "exHeight d = 12"

definition exWidth :: "Drawable \<Rightarrow> float64" where
  "exWidth d = (case d of ParagraphPtr n \<Rightarrow> Finite (- 1) | _ \<Rightarrow> Finite 40)"

section \<open>Properties\<close>

subsection \<open>The example inputs, evaluated\<close>

lemma exIntro_eq:
  "exIntro = \<lparr>number = 1, title = ''Intro'',
     heading = \<lparr>ptext = ''1. Intro'', fontSize = 16, pfont = Helvetica\<rparr>, subchapters = 0,
     contents = [ParagraphPtr 1], showNumbering = True, includeInTOC = True,
     positioning = positionRelative, xPos = 0, yPos = 0,
     margins = \<lparr>mleft = 0, mright = 0, mtop = 0, mbottom = 0\<rparr>,
     sizing = SizingOccupyAvailableSpace, toc = 7\<rparr>"
  by (simp add: exIntro_def Add_def NewChapter_def Let_def exCreator_def numberedHeading_def
      fmtInt_def digitChar_def)

lemma exReport_eq:
  "exReport = \<lparr>number = 1, title = ''Report'',
     heading = \<lparr>ptext = ''1. Report'', fontSize = 16, pfont = Helvetica\<rparr>, subchapters = 0,
     contents = [SubchapterPtr 4, ImagePtr 2, ParagraphPtr 3], showNumbering = True,
     includeInTOC = True, positioning = positionRelative, xPos = 0, yPos = 0,
     margins = \<lparr>mleft = 0, mright = 0, mtop = 0, mbottom = 0\<rparr>,
     sizing = SizingOccupyAvailableSpace, toc = 7\<rparr>"
  by (simp add: exReport_def Add_def NewChapter_def Let_def exCreator_def numberedHeading_def
      fmtInt_def digitChar_def)

lemma heading_exEmpty: "heading exEmpty = \<lparr>ptext = ''1. Empty'', fontSize = 16, pfont = Helvetica\<rparr>"
  by (simp add: exEmpty_def NewChapter_def Let_def exCreator_def numberedHeading_def fmtInt_def digitChar_def)

lemma contents_exEmpty: "contents exEmpty = []"
  by (simp add: exEmpty_def NewChapter_def Let_def)

subsection \<open>Facts about the loop\<close>

lemma loopBody_Continue_nonempty:
  "loopBody M g blocks ctx = Continue bs c \<Longrightarrow> blocks \<noteq> [] \<Longrightarrow> bs \<noteq> []"
  by (auto simp: loopBody_def split: prod.splits if_splits)

lemma loopBody_IndexPanic_iff:
  "loopBody M g blocks ctx = IndexPanic \<longleftrightarrow>
     (snd (snd g) = None \<and> fst g \<noteq> [] \<and> blocks = [])"
  by (auto simp: loopBody_def split: prod.splits if_splits)

lemma contentLoop_no_panic:
  "blocks \<noteq> [] \<Longrightarrow> fst (contentLoop M G ds blocks ctx t) \<noteq> Panic"
proof (induction ds arbitrary: blocks ctx t)
  case Nil
  then show ?case by simp
next
  case (Cons d ds)
  obtain g r where G: "G d ctx = (g, r)" by (cases "G d ctx")
  show ?case
  proof (cases "loopBody M g blocks ctx")
    case (Continue bs c)
    with Cons.prems have "bs \<noteq> []" by (auto dest: loopBody_Continue_nonempty)
    with Cons.IH Continue G show ?thesis by simp
  next
    case (ReturnError bs c e)
    with G show ?thesis by simp
  next
    case IndexPanic
    with Cons.prems show ?thesis by (simp add: loopBody_IndexPanic_iff)
  qed
qed

lemma contentLoop_skip:
  "\<forall>p\<in>set pre. \<exists>c r. G p ctx = (([], c, None), r) \<Longrightarrow>
   contentLoop M G (pre @ rest) blocks ctx t =
     contentLoop M G rest blocks ctx (t @ concat (map (\<lambda>p. snd (G p ctx)) pre))"
proof (induction pre arbitrary: t)
  case Nil
  then show ?case by simp
next
  case (Cons p pre)
  then obtain c r where "G p ctx = (([], c, None), r)" by auto
  with Cons show ?case by (simp add: loopBody_def)
qed

lemma headingStep_empty:
  "H (heading chap) ctxIn = ([], ctx, None) \<Longrightarrow> headingStep H chap ctxIn = Inr ([], ctx)"
  by (simp add: headingStep_def)

lemma headingStep_Inr_nonempty:
  "H (heading chap) ctxIn = (hb, hctx, err) \<Longrightarrow> hb \<noteq> [] \<Longrightarrow>
   headingStep H chap ctxIn = Inr (bs, c) \<Longrightarrow> bs \<noteq> []"
  by (auto simp: headingStep_def split: if_splits)

lemma loopBody_length:
  "loopBody M g blocks ctx = Continue bs c \<Longrightarrow> length blocks \<le> length bs"
  by (auto simp: loopBody_def split: prod.splits if_splits)

lemma loopBody_page:
  "loopBody M g blocks ctx = Continue bs c \<Longrightarrow> c = ctx \<or> c = fst (snd g)"
  by (auto simp: loopBody_def split: prod.splits if_splits)

lemma loopBody_ReturnError:
  "loopBody M g blocks ctx = ReturnError bs c e \<Longrightarrow> bs = blocks \<and> c = ctx \<and> e = snd (snd g) \<and> e \<noteq> None"
  by (auto simp: loopBody_def split: prod.splits if_splits)

lemma update_last: "xs \<noteq> [] \<Longrightarrow> xs[length xs - Suc 0 := x] = butlast xs @ [x]"
  by (induction xs rule: rev_induct) simp_all

lemma loopBody_merge:
  "blocks \<noteq> [] \<Longrightarrow> newBlocks \<noteq> [] \<Longrightarrow>
   loopBody M (newBlocks, c, None) blocks ctx =
     Continue (butlast blocks @ [M (last blocks) (hd newBlocks)] @ tl newBlocks) c"
  by (simp add: loopBody_def update_last last_conv_nth hd_conv_nth drop_Suc)

lemma contentLoop_toc:
  "contentLoop M G ds blocks ctx t =
     (fst (contentLoop M G ds blocks ctx []), t @ snd (contentLoop M G ds blocks ctx []))"
proof (induction ds arbitrary: blocks ctx t)
  case Nil
  then show ?case by simp
next
  case (Cons d ds)
  obtain g r where G: "G d ctx = (g, r)" by (cases "G d ctx")
  show ?case
  proof (cases "loopBody M g blocks ctx")
    case (Continue bs c)
    from Cons.IH [of bs c "t @ r"] Cons.IH [of bs c r] Continue G
    show ?thesis by simp
  qed (use G in simp_all)
qed

lemma contentLoop_append:
  "contentLoop M G pre blocks ctx t = (Returned bs c None, t1) \<Longrightarrow>
   contentLoop M G (pre @ rest) blocks ctx t = contentLoop M G rest bs c t1"
proof (induction pre arbitrary: blocks ctx t)
  case Nil
  then show ?case by simp
next
  case (Cons d pre)
  obtain g r where G: "G d ctx = (g, r)" by (cases "G d ctx")
  show ?case
  proof (cases "loopBody M g blocks ctx")
    case (Continue bs' c')
    with Cons G show ?thesis by simp
  next
    case (ReturnError bs' c' e)
    then have "e \<noteq> None" by (auto simp: loopBody_def split: prod.splits if_splits)
    with Cons.prems G ReturnError show ?thesis by simp
  next
    case IndexPanic
    with Cons.prems G show ?thesis by simp
  qed
qed

lemma contentLoop_monotone:
  assumes "\<forall>d\<in>set ds. \<forall>c. sint (Page c) \<le> sint (Page (fst (snd (fst (G d c)))))"
    and "contentLoop M G ds blocks ctx t = (Returned bs c err, t')"
  shows "length blocks \<le> length bs \<and> sint (Page ctx) \<le> sint (Page c)"
  using assms
proof (induction ds arbitrary: blocks ctx t)
  case Nil
  then show ?case by simp
next
  case (Cons d ds)
  obtain g r where G: "G d ctx = (g, r)" by (cases "G d ctx")
  from Cons.prems(1) G have mono: "sint (Page ctx) \<le> sint (Page (fst (snd g)))"
    by (metis fst_conv list.set_intros(1))
  show ?case
  proof (cases "loopBody M g blocks ctx")
    case (Continue bs' c')
    with Cons.prems(2) G have run: "contentLoop M G ds bs' c' (t @ r) = (Returned bs c err, t')"
      by simp
    from Cons.prems(1) have "\<forall>d\<in>set ds. \<forall>c. sint (Page c) \<le> sint (Page (fst (snd (fst (G d c)))))"
      by simp
    from Cons.IH [OF this run] have ih: "length bs' \<le> length bs \<and> sint (Page c') \<le> sint (Page c)" .
    from Continue have "length blocks \<le> length bs'" by (rule loopBody_length)
    moreover from Continue mono have "sint (Page ctx) \<le> sint (Page c')"
      by (auto dest: loopBody_page)
    ultimately show ?thesis using ih by simp
  next
    case (ReturnError bs' c' e)
    with Cons.prems(2) G show ?thesis by (auto dest: loopBody_ReturnError)
  next
    case IndexPanic
    with Cons.prems(2) G show ?thesis by simp
  qed
qed

lemma headingStep_SetIncludeInTOC:
  "headingStep H (SetIncludeInTOC b chap) ctxIn = headingStep H chap ctxIn"
  by (simp add: headingStep_def SetIncludeInTOC_def)

lemma sint_succ:
  fixes x :: go_int
  assumes "sint x < 9223372036854775807"
  shows "sint (x + 1) = sint x + 1"
proof -
  have "- (2 ^ 63) \<le> sint x" using sint_ge [of x] by simp
  with assms have "signed_take_bit 63 (sint x + 1) = sint x + 1"
    by (intro signed_take_bit_int_eq_self) simp_all
  then show ?thesis by (simp add: sint_word_ariths)
qed

subsection \<open>The page index after the heading\<close>

text \<open>
  Claim C1: when the heading succeeds with more than one block, the page index after the
  advance of line 164 is exactly one greater than the page index of the context passed
  into the call. The code does not do this for a heading that moved to a new page and
  hands back the context of that page, as the loop of lines 172 to 186 expects of every
  content item: line 159 rebinds \<^verbatim>\<open>ctx\<close> to the returned context and line 164 increments
  it once more. Evaluated on the chapter Intro at page 0: the heading returns two blocks
  and page 1, the page index after the advance is 2, which is not 0 + 1, and the chapter is
  recorded in the table of contents at page 2. The sibling path: a content item that
  returns two blocks and page 1 leaves the loop at page 1, with no further increment.
\<close>

theorem GeneratePageBlocks_heading_double_advance:
  "exHeadingNewPage (heading exIntro) exCtx =
     ([[], [''1. Intro'']], \<lparr>Page = 1, Rest = ()\<rparr>, None) \<and>
   sint (Page exCtx) = 0 \<and>
   headingStep exHeadingNewPage exIntro exCtx =
     Inr ([[], [''1. Intro'']], \<lparr>Page = 2, Rest = ()\<rparr>) \<and>
   sint (Page \<lparr>Page = 2, Rest = ()\<rparr>) \<noteq> sint (Page exCtx) + 1 \<and>
   GeneratePageBlocks exHeadingNewPage exMerge exItem exIntro exCtx [] =
     (Returned [[], [''1. Intro'', ''body'']] \<lparr>Page = 2, Rest = ()\<rparr> None,
      [(''Intro'', 1, 0, 2)]) \<and>
   exItemNewPage (ParagraphPtr 1) exCtx =
     (([[], [''body'']], \<lparr>Page = 1, Rest = ()\<rparr>, None), []) \<and>
   contentLoop exMerge exItemNewPage [ParagraphPtr 1] [[''1. Intro'']] exCtx [] =
     (Returned [[''1. Intro''], [''body'']] \<lparr>Page = 1, Rest = ()\<rparr> None, [])"
  by (simp add: GeneratePageBlocks_def headingStep_def tocStep_def toc_add_def loopBody_def
      exHeadingNewPage_def exItem_def exItemNewPage_def exMerge_def exCtx_def exIntro_eq)

subsection \<open>The entry in the table of contents\<close>

text \<open>
  Claim C2. When the heading succeeds: with include-in-TOC set, the call records exactly
  one entry (title, number, level 0, page index after the heading's advance); it follows
  the entries already there and comes before every entry that the content items record
  themselves, so it is made before any content item is processed. With the flag cleared
  no entry is recorded by the chapter. The blocks, the context and the error returned do
  not depend on the flag.
\<close>

theorem GeneratePageBlocks_registry:
  assumes "headingStep H chap ctxIn = Inr (hb, hctx)"
  shows "(includeInTOC chap \<longrightarrow>
            snd (GeneratePageBlocks H M G chap ctxIn t) =
              t @ [(title chap, number chap, 0, Page hctx)]
                @ snd (contentLoop M G (contents chap) hb hctx [])) \<and>
         (\<not> includeInTOC chap \<longrightarrow>
            snd (GeneratePageBlocks H M G chap ctxIn t) =
              t @ snd (contentLoop M G (contents chap) hb hctx [])) \<and>
         fst (GeneratePageBlocks H M G (SetIncludeInTOC False chap) ctxIn t) =
           fst (GeneratePageBlocks H M G (SetIncludeInTOC True chap) ctxIn t)"
proof -
  have a: "snd (contentLoop M G ds hb hctx t') = t' @ snd (contentLoop M G ds hb hctx [])" for ds t'
    using contentLoop_toc [of M G ds hb hctx t'] by simp
  have b: "fst (contentLoop M G ds hb hctx t') = fst (contentLoop M G ds hb hctx [])" for ds t'
    using contentLoop_toc [of M G ds hb hctx t'] by simp
  have c: "fst (GeneratePageBlocks H M G (SetIncludeInTOC f chap) ctxIn t) =
      fst (contentLoop M G (contents chap) hb hctx [])" for f
    using assms b [of "contents chap"]
    by (simp add: GeneratePageBlocks_def headingStep_SetIncludeInTOC) (simp add: SetIncludeInTOC_def)
  have d: "snd (GeneratePageBlocks H M G chap ctxIn t) =
      tocStep chap hctx t @ snd (contentLoop M G (contents chap) hb hctx [])"
    using assms a [of "contents chap" "tocStep chap hctx t"] by (simp add: GeneratePageBlocks_def)
  have e: "includeInTOC chap \<Longrightarrow> tocStep chap hctx t = t @ [(title chap, number chap, 0, Page hctx)]"
    by (simp add: tocStep_def toc_add_def)
  have f: "\<not> includeInTOC chap \<Longrightarrow> tocStep chap hctx t = t"
    by (simp add: tocStep_def)
  from c [of False] c [of True] d e f show ?thesis by simp
qed

theorem GeneratePageBlocks_registry_witness:
  "headingStep exHeadingFits exIntro exCtx = Inr ([[''1. Intro'']], exCtx) \<and>
   includeInTOC exIntro \<and>
   snd (GeneratePageBlocks exHeadingFits exMerge exItem exIntro exCtx []) =
     [(''Intro'', 1, 0, 0)] \<and>
   \<not> includeInTOC (SetIncludeInTOC False exIntro) \<and>
   snd (GeneratePageBlocks exHeadingFits exMerge exItem (SetIncludeInTOC False exIntro) exCtx []) = [] \<and>
   fst (GeneratePageBlocks exHeadingFits exMerge exItem (SetIncludeInTOC False exIntro) exCtx []) =
     fst (GeneratePageBlocks exHeadingFits exMerge exItem (SetIncludeInTOC True exIntro) exCtx [])"
proof -
  have hs: "headingStep exHeadingFits exIntro exCtx = Inr ([[''1. Intro'']], exCtx)"
    by (simp add: headingStep_def exHeadingFits_def exIntro_eq)
  have hs': "headingStep exHeadingFits (SetIncludeInTOC False exIntro) exCtx =
      Inr ([[''1. Intro'']], exCtx)"
    by (simp add: headingStep_def exHeadingFits_def exIntro_eq SetIncludeInTOC_def)
  have inc: "includeInTOC exIntro"
    by (simp add: exIntro_eq)
  have exc: "\<not> includeInTOC (SetIncludeInTOC False exIntro)"
    by (simp add: SetIncludeInTOC_def)
  have cs: "contents (SetIncludeInTOC False exIntro) = [ParagraphPtr 1]" "contents exIntro = [ParagraphPtr 1]"
    by (simp_all add: SetIncludeInTOC_def exIntro_eq)
  have loop: "contentLoop exMerge exItem [ParagraphPtr 1] [[''1. Intro'']] exCtx [] =
      (Returned [[''1. Intro'', ''body'']] exCtx None, [])"
    by (simp add: loopBody_def exItem_def exMerge_def)
  from GeneratePageBlocks_registry [where H = exHeadingFits and chap = exIntro and ctxIn = exCtx
      and M = exMerge and G = exItem and t = "[]", OF hs] inc loop cs
  have a: "snd (GeneratePageBlocks exHeadingFits exMerge exItem exIntro exCtx []) =
      [(''Intro'', 1, 0, 0)]"
    and c: "fst (GeneratePageBlocks exHeadingFits exMerge exItem (SetIncludeInTOC False exIntro) exCtx []) =
     fst (GeneratePageBlocks exHeadingFits exMerge exItem (SetIncludeInTOC True exIntro) exCtx [])"
    by (simp_all add: exIntro_eq exCtx_def)
  from GeneratePageBlocks_registry [where H = exHeadingFits
      and chap = "SetIncludeInTOC False exIntro" and ctxIn = exCtx
      and M = exMerge and G = exItem and t = "[]", OF hs'] exc loop cs
  have b: "snd (GeneratePageBlocks exHeadingFits exMerge exItem (SetIncludeInTOC False exIntro) exCtx []) = []"
    by simp
  from hs inc a exc b c show ?thesis by blast
qed

subsection \<open>A failing content item\<close>

text \<open>
  Claim C3. When the items \<open>pre\<close> before \<open>d\<close> are processed without error, leaving the
  accumulated \<open>blocks\<close> and the current context \<open>ctx\<close>, and the call on \<open>d\<close> returns the
  error \<open>e\<close>, then the call returns exactly \<open>blocks\<close>, \<open>ctx\<close> (not the context \<open>c\<close> that
  the failing item handed back) and \<open>e\<close>. The result does not mention the later items
  \<open>post\<close>: none of them is called, and nothing they would record reaches the table of
  contents.
\<close>

theorem GeneratePageBlocks_item_error:
  assumes "headingStep H chap ctxIn = Inr (hb, hctx)"
    and "contents chap = pre @ d # post"
    and "contentLoop M G pre hb hctx (tocStep chap hctx t) = (Returned blocks ctx None, t1)"
    and "G d ctx = ((nb, c, Some e), recorded)"
  shows "GeneratePageBlocks H M G chap ctxIn t = (Returned blocks ctx (Some e), t1 @ recorded)"
proof -
  from assms(4) have "contentLoop M G (d # post) blocks ctx t1 = (Returned blocks ctx (Some e), t1 @ recorded)"
    by (simp add: loopBody_def)
  with contentLoop_append [OF assms(3), of "d # post"] assms(1,2) show ?thesis
    by (simp add: GeneratePageBlocks_def)
qed

theorem GeneratePageBlocks_item_error_witness:
  "headingStep exHeadingFits exReport exCtx = Inr ([[''1. Report'']], exCtx) \<and>
   contents exReport = [SubchapterPtr 4] @ ImagePtr 2 # [ParagraphPtr 3] \<and>
   contentLoop exMerge exItem [SubchapterPtr 4] [[''1. Report'']] exCtx (tocStep exReport exCtx []) =
     (Returned [[''1. Report'', ''sub'']] exCtx None, [(''Report'', 1, 0, 0), (''Sub'', 1, 1, 0)]) \<and>
   exItem (ImagePtr 2) exCtx =
     (([[''lost'']], \<lparr>Page = 1, Rest = ()\<rparr>, Some ''cannot draw''), []) \<and>
   GeneratePageBlocks exHeadingFits exMerge exItem exReport exCtx [] =
     (Returned [[''1. Report'', ''sub'']] exCtx (Some ''cannot draw''),
      [(''Report'', 1, 0, 0), (''Sub'', 1, 1, 0)])"
proof -
  have hs: "headingStep exHeadingFits exReport exCtx = Inr ([[''1. Report'']], exCtx)"
    by (simp add: headingStep_def exHeadingFits_def exReport_eq)
  have cs: "contents exReport = [SubchapterPtr 4] @ ImagePtr 2 # [ParagraphPtr 3]"
    by (simp add: exReport_eq)
  have pre: "contentLoop exMerge exItem [SubchapterPtr 4] [[''1. Report'']] exCtx (tocStep exReport exCtx []) =
     (Returned [[''1. Report'', ''sub'']] exCtx None, [(''Report'', 1, 0, 0), (''Sub'', 1, 1, 0)])"
    by (simp add: loopBody_def exItem_def exMerge_def tocStep_def toc_add_def exReport_eq exCtx_def)
  have fail: "exItem (ImagePtr 2) exCtx =
     (([[''lost'']], \<lparr>Page = 1, Rest = ()\<rparr>, Some ''cannot draw''), [])"
    by (simp add: exItem_def exCtx_def)
  from GeneratePageBlocks_item_error [where H = exHeadingFits and chap = exReport and ctxIn = exCtx
      and M = exMerge and G = exItem and t = "[]", OF hs cs pre fail] hs cs pre fail
  show ?thesis by simp
qed

subsection \<open>One content item\<close>

text \<open>
  Claim C4. An item whose call returns no error: with zero blocks, the loop goes on with
  the same accumulated blocks and the same context (the returned context \<open>c\<close> is dropped);
  otherwise, the accumulated sequence being non-empty, the loop goes on with the item's
  first block merged into the last accumulated block, the item's remaining blocks
  appended as they are, and the item's returned context as the current one.
\<close>

theorem contentLoop_item:
  "G d ctx = ((newBlocks, c, None), recorded) \<Longrightarrow>
   (newBlocks = [] \<longrightarrow>
      contentLoop M G (d # ds) blocks ctx t = contentLoop M G ds blocks ctx (t @ recorded)) \<and>
   (newBlocks \<noteq> [] \<and> blocks \<noteq> [] \<longrightarrow>
      contentLoop M G (d # ds) blocks ctx t =
        contentLoop M G ds
          (butlast blocks @ [M (last blocks) (hd newBlocks)] @ tl newBlocks) c (t @ recorded))"
  by (simp add: loopBody_merge) (simp add: loopBody_def)

theorem contentLoop_item_witness:
  "exItem (BlockPtr 5) exCtx = (([], \<lparr>Page = 1, Rest = ()\<rparr>, None), []) \<and>
   contentLoop exMerge exItem [BlockPtr 5] [[''1. Intro'']] exCtx [] =
     (Returned [[''1. Intro'']] exCtx None, []) \<and>
   exItem (ParagraphPtr 1) exCtx = (([[''body'']], exCtx, None), []) \<and>
   contentLoop exMerge exItem [ParagraphPtr 1] [[''1. Intro'']] exCtx [] =
     (Returned [[''1. Intro'', ''body'']] exCtx None, [])"
proof -
  have e: "exItem (BlockPtr 5) exCtx = (([], \<lparr>Page = 1, Rest = ()\<rparr>, None), [])"
    by (simp add: exItem_def exCtx_def)
  have p: "exItem (ParagraphPtr 1) exCtx = (([[''body'']], exCtx, None), [])"
    by (simp add: exItem_def)
  from contentLoop_item [where G = exItem and d = "BlockPtr 5" and ctx = exCtx
      and newBlocks = "[]" and c = "\<lparr>Page = 1, Rest = ()\<rparr>" and recorded = "[]"
      and M = exMerge and ds = "[]" and blocks = "[[''1. Intro'']]" and t = "[]", OF e]
  have a: "contentLoop exMerge exItem [BlockPtr 5] [[''1. Intro'']] exCtx [] =
     (Returned [[''1. Intro'']] exCtx None, [])"
    by simp
  from contentLoop_item [where G = exItem and d = "ParagraphPtr 1" and ctx = exCtx
      and newBlocks = "[[''body'']]" and c = exCtx and recorded = "[]"
      and M = exMerge and ds = "[]" and blocks = "[[''1. Intro'']]" and t = "[]", OF p]
  have b: "contentLoop exMerge exItem [ParagraphPtr 1] [[''1. Intro'']] exCtx [] =
     (Returned [[''1. Intro'', ''body'']] exCtx None, [])"
    by (simp add: exMerge_def)
  from e a p b show ?thesis by blast
qed

subsection \<open>Monotonicity\<close>

text \<open>
  Claim C5, as the specification states it: if no collaborator decreases the page index,
  the returned page index is not below the incoming one. \<^verbatim>\<open>ctx.Page++\<close> wraps around at
  the largest \<^verbatim>\<open>int\<close>: a heading of two blocks on page 9223372036854775807, which hands
  the context back unchanged, leaves the call returning page -9223372036854775808.
\<close>

theorem GeneratePageBlocks_monotone_counterexample:
  "exHeadingSplit (heading exEmpty) exCtxLastPage = ([[], [''1. Empty'']], exCtxLastPage, None) \<and>
   contents exEmpty = [] \<and>
   fst (GeneratePageBlocks exHeadingSplit exMerge exItem exEmpty exCtxLastPage []) =
     Returned [[], [''1. Empty'']] \<lparr>Page = - 9223372036854775808, Rest = ()\<rparr> None \<and>
   sint (Page exCtxLastPage) = 9223372036854775807 \<and>
   sint (Page \<lparr>Page = - 9223372036854775808, Rest = ()\<rparr>) = - 9223372036854775808 \<and>
   sint (Page \<lparr>Page = - 9223372036854775808, Rest = ()\<rparr>) < sint (Page exCtxLastPage)"
  by (simp add: GeneratePageBlocks_def headingStep_def exHeadingSplit_def heading_exEmpty
      contents_exEmpty exCtxLastPage_def)

text \<open>
  Claim C5, amended: if no collaborator decreases the page index and, when the heading
  yields more than one block, the page index it returns is below the largest \<^verbatim>\<open>int\<close>,
  then (a) no loop iteration shortens the accumulated block sequence, and the returned
  sequence is at least as long as the heading's, and (b) the returned page index is not
  below the incoming one.
\<close>

theorem GeneratePageBlocks_monotone:
  fixes H :: "('b, 'x, 'e) headingGen" and G :: "('b, 'x, 'e) itemGen"
  assumes hm: "\<forall>c. sint (Page c) \<le> sint (Page (fst (snd (H (heading chap) c))))"
    and gm: "\<forall>d\<in>set (contents chap). \<forall>c. sint (Page c) \<le> sint (Page (fst (snd (fst (G d c)))))"
    and nw: "length (fst (H (heading chap) ctxIn)) > 1 \<longrightarrow>
               sint (Page (fst (snd (H (heading chap) ctxIn)))) < 9223372036854775807"
  shows "(\<forall>(g :: ('b, 'x, 'e) generated) blocks ctx bs c. loopBody M g blocks ctx = Continue bs c \<longrightarrow> length blocks \<le> length bs) \<and>
         (\<forall>bs c err t'. GeneratePageBlocks H M G chap ctxIn t = (Returned bs c err, t') \<longrightarrow>
            length (fst (H (heading chap) ctxIn)) \<le> length bs \<and> sint (Page ctxIn) \<le> sint (Page c))"
proof (rule conjI)
  show "\<forall>(g :: ('b, 'x, 'e) generated) blocks ctx bs c.
          loopBody M g blocks ctx = Continue bs c \<longrightarrow> length blocks \<le> length bs"
    by (auto dest: loopBody_length)
next
  show "\<forall>bs c err t'. GeneratePageBlocks H M G chap ctxIn t = (Returned bs c err, t') \<longrightarrow>
            length (fst (H (heading chap) ctxIn)) \<le> length bs \<and> sint (Page ctxIn) \<le> sint (Page c)"
  proof (intro allI impI)
  fix bs c err t'
  assume run: "GeneratePageBlocks H M G chap ctxIn t = (Returned bs c err, t')"
  obtain hb hctx herr where Hh: "H (heading chap) ctxIn = (hb, hctx, herr)"
    by (cases "H (heading chap) ctxIn")
  from hm Hh have m0: "sint (Page ctxIn) \<le> sint (Page hctx)"
    by (metis fst_conv snd_conv)
  show "length (fst (H (heading chap) ctxIn)) \<le> length bs \<and> sint (Page ctxIn) \<le> sint (Page c)"
  proof (cases "herr = None")
    case False
    with run Hh m0 show ?thesis
      by (auto simp: GeneratePageBlocks_def headingStep_def)
  next
    case True
    define ctx2 where "ctx2 = (if length hb > 1 then hctx\<lparr>Page := Page hctx + 1\<rparr> else hctx)"
    from True Hh have hs: "headingStep H chap ctxIn = Inr (hb, ctx2)"
      by (simp add: headingStep_def ctx2_def)
    from nw Hh have "length hb > 1 \<Longrightarrow> sint (Page hctx + 1) = sint (Page hctx) + 1"
      by (intro sint_succ) simp
    with m0 have m2: "sint (Page ctxIn) \<le> sint (Page ctx2)"
      by (simp add: ctx2_def)
    from run hs have "contentLoop M G (contents chap) hb ctx2 (tocStep chap ctx2 t) = (Returned bs c err, t')"
      by (simp add: GeneratePageBlocks_def)
    from contentLoop_monotone [OF gm this] m2 Hh show ?thesis by simp
  qed
  qed
qed

theorem GeneratePageBlocks_monotone_witness:
  "length (fst (exHeadingSplit (heading exIntro) exCtx)) = 2 \<and>
   sint (Page (fst (snd (exHeadingSplit (heading exIntro) exCtx)))) = 0 \<and>
   GeneratePageBlocks exHeadingSplit exMerge exItem exIntro exCtx [] =
     (Returned [[], [''1. Intro'', ''body'']] \<lparr>Page = 1, Rest = ()\<rparr> None, [(''Intro'', 1, 0, 1)]) \<and>
   length (fst (exHeadingSplit (heading exIntro) exCtx)) \<le> length [[], [''1. Intro'', ''body'']] \<and>
   sint (Page exCtx) \<le> sint (Page \<lparr>Page = 1, Rest = ()\<rparr>)"
proof -
  have hm: "\<forall>c. sint (Page c) \<le> sint (Page (fst (snd (exHeadingSplit (heading exIntro) c))))"
    by (simp add: exHeadingSplit_def)
  have gm: "\<forall>d\<in>set (contents exIntro). \<forall>c. sint (Page c) \<le> sint (Page (fst (snd (fst (exItem d c)))))"
    by (simp add: exIntro_eq exItem_def)
  have l: "length (fst (exHeadingSplit (heading exIntro) exCtx)) = 2"
    by (simp add: exHeadingSplit_def)
  have z: "sint (Page (fst (snd (exHeadingSplit (heading exIntro) exCtx)))) = 0"
    by (simp add: exHeadingSplit_def exCtx_def)
  from z have nw: "length (fst (exHeadingSplit (heading exIntro) exCtx)) > 1 \<longrightarrow>
      sint (Page (fst (snd (exHeadingSplit (heading exIntro) exCtx)))) < 9223372036854775807"
    by simp
  have run: "GeneratePageBlocks exHeadingSplit exMerge exItem exIntro exCtx [] =
     (Returned [[], [''1. Intro'', ''body'']] \<lparr>Page = 1, Rest = ()\<rparr> None, [(''Intro'', 1, 0, 1)])"
    by (simp add: GeneratePageBlocks_def headingStep_def exHeadingSplit_def exIntro_eq loopBody_def
        exItem_def exMerge_def tocStep_def toc_add_def exCtx_def)
  from GeneratePageBlocks_monotone [where H = exHeadingSplit and chap = exIntro and G = exItem
      and ctxIn = exCtx and M = exMerge and t = "[]", OF hm gm nw, THEN conjunct2, rule_format, OF run]
  have "length (fst (exHeadingSplit (heading exIntro) exCtx)) \<le> length [[], [''1. Intro'', ''body'']] \<and>
   sint (Page exCtx) \<le> sint (Page \<lparr>Page = 1, Rest = ()\<rparr>)" .
  with l z run show ?thesis by blast
qed

subsection \<open>Index safety of the merge step\<close>

text \<open>
  Claim C9. The merge step \<^verbatim>\<open>blocks[len(blocks)-1]\<close> is in range only if the heading
  yields at least one block. First part: when the heading succeeds with an empty block
  sequence, the items before \<open>d\<close> return no block and no error, and \<open>d\<close> returns at
  least one block and no error, the call indexes an empty slice and panics. Second part:
  when the heading yields one or more blocks, the call never panics, whatever the items
  return.
\<close>

theorem GeneratePageBlocks_index_range:
  "(
      H (heading chap) ctxIn = ([], ctx, None) \<and>
      contents chap = pre @ d # post \<and>
      (\<forall>p\<in>set pre. \<exists>c' r'. G p ctx = (([], c', None), r')) \<and>
      G d ctx = ((nb, c, None), r) \<and> nb \<noteq> []
      \<longrightarrow> fst (GeneratePageBlocks H M G chap ctxIn t) = Panic)
   \<and> (
      H (heading chap) ctxIn = (hb, hctx, err) \<and> hb \<noteq> []
      \<longrightarrow> fst (GeneratePageBlocks H M G chap ctxIn t) \<noteq> Panic)"
proof (intro conjI impI)
  assume a: "H (heading chap) ctxIn = ([], ctx, None) \<and>
      contents chap = pre @ d # post \<and>
      (\<forall>p\<in>set pre. \<exists>c' r'. G p ctx = (([], c', None), r')) \<and>
      G d ctx = ((nb, c, None), r) \<and> nb \<noteq> []"
  then have hs: "headingStep H chap ctxIn = Inr ([], ctx)"
    by (simp add: headingStep_empty)
  from a have skip: "contentLoop M G (pre @ d # post) [] ctx (tocStep chap ctx t) =
     contentLoop M G (d # post) [] ctx (tocStep chap ctx t @ concat (map (\<lambda>p. snd (G p ctx)) pre))"
    by (intro contentLoop_skip) simp
  from a have "fst (contentLoop M G (d # post) [] ctx t') = Panic" for t'
    by (simp add: loopBody_def)
  with hs skip a show "fst (GeneratePageBlocks H M G chap ctxIn t) = Panic"
    by (simp add: GeneratePageBlocks_def)
next
  assume a: "H (heading chap) ctxIn = (hb, hctx, err) \<and> hb \<noteq> []"
  show "fst (GeneratePageBlocks H M G chap ctxIn t) \<noteq> Panic"
  proof (cases "headingStep H chap ctxIn")
    case (Inl x)
    then show ?thesis by (cases x) (simp add: GeneratePageBlocks_def)
  next
    case (Inr y)
    obtain bs c where y: "y = (bs, c)" by (cases y)
    with Inr a have "bs \<noteq> []" by (auto dest: headingStep_Inr_nonempty)
    with Inr y show ?thesis by (simp add: GeneratePageBlocks_def contentLoop_no_panic)
  qed
qed


theorem GeneratePageBlocks_index_range_witness:
  "exHeadingNone (heading exIntro) exCtx = ([], exCtx, None) \<and>
   contents exIntro = [] @ ParagraphPtr 1 # [] \<and>
   exItem (ParagraphPtr 1) exCtx = (([[''body'']], exCtx, None), []) \<and>
   fst (GeneratePageBlocks exHeadingNone exMerge exItem exIntro exCtx []) = Panic \<and>
   exHeadingFits (heading exIntro) exCtx = ([[''1. Intro'']], exCtx, None) \<and>
   fst (GeneratePageBlocks exHeadingFits exMerge exItem exIntro exCtx []) \<noteq> Panic"
proof -
  have h1: "exHeadingNone (heading exIntro) exCtx = ([], exCtx, None)"
    by (simp add: exHeadingNone_def)
  have h2: "contents exIntro = [] @ ParagraphPtr 1 # []"
    by (simp add: exIntro_def Add_def NewChapter_def Let_def)
  have h3: "exItem (ParagraphPtr 1) exCtx = (([[''body'']], exCtx, None), [])"
    by (simp add: exItem_def)
  have h4: "exHeadingFits (heading exIntro) exCtx = ([[''1. Intro'']], exCtx, None)"
    by (simp add: exHeadingFits_def exIntro_def Add_def NewChapter_def Let_def exCreator_def
        numberedHeading_def fmtInt_def digitChar_def)
  from GeneratePageBlocks_index_range
         [of exHeadingNone exIntro exCtx exCtx "[]" "ParagraphPtr 1" "[]" exItem
             "[[''body'']]" exCtx "[]" exMerge "[]", THEN conjunct1] h1 h2 h3
  have c1: "fst (GeneratePageBlocks exHeadingNone exMerge exItem exIntro exCtx []) = Panic"
    by simp
  from GeneratePageBlocks_index_range
         [of exHeadingFits exIntro exCtx _ _ _ _ exItem _ _ _ exMerge "[]" "[[''1. Intro'']]" exCtx None,
          THEN conjunct2] h4
  have c2: "fst (GeneratePageBlocks exHeadingFits exMerge exItem exIntro exCtx []) \<noteq> Panic"
    by simp
  from h1 h2 h3 h4 c1 c2 show ?thesis by blast
qed

subsection \<open>No rollback of the table of contents\<close>

text \<open>
  Claim C10. With include-in-TOC set, when a content item fails after the items \<open>pre\<close>
  were processed, the table of contents after the call holds the entries it had, then the
  one entry of the chapter, then what the processed items recorded: the entry of the
  chapter is not taken back.
\<close>

theorem GeneratePageBlocks_error_keeps_entry:
  assumes "includeInTOC chap"
    and "headingStep H chap ctxIn = Inr (hb, hctx)"
    and "contents chap = pre @ d # post"
    and "contentLoop M G pre hb hctx [] = (Returned blocks ctx None, earlier)"
    and "G d ctx = ((nb, c, Some e), recorded)"
  shows "GeneratePageBlocks H M G chap ctxIn t =
           (Returned blocks ctx (Some e),
            t @ [(title chap, number chap, 0, Page hctx)] @ earlier @ recorded)"
proof -
  let ?t2 = "t @ [(title chap, number chap, 0, Page hctx)]"
  from assms(4) contentLoop_toc [of M G pre hb hctx ?t2]
  have pre: "contentLoop M G pre hb hctx ?t2 = (Returned blocks ctx None, ?t2 @ earlier)"
    by simp
  from assms(5) have "contentLoop M G (d # post) blocks ctx (?t2 @ earlier) =
      (Returned blocks ctx (Some e), (?t2 @ earlier) @ recorded)"
    by (simp add: loopBody_def)
  with contentLoop_append [OF pre, of "d # post"] assms(1,2,3) show ?thesis
    by (simp add: GeneratePageBlocks_def tocStep_def toc_add_def)
qed

theorem GeneratePageBlocks_error_keeps_entry_witness:
  "includeInTOC exReport \<and>
   headingStep exHeadingFits exReport exCtx = Inr ([[''1. Report'']], exCtx) \<and>
   contents exReport = [SubchapterPtr 4] @ ImagePtr 2 # [ParagraphPtr 3] \<and>
   contentLoop exMerge exItem [SubchapterPtr 4] [[''1. Report'']] exCtx [] =
     (Returned [[''1. Report'', ''sub'']] exCtx None, [(''Sub'', 1, 1, 0)]) \<and>
   exItem (ImagePtr 2) exCtx =
     (([[''lost'']], \<lparr>Page = 1, Rest = ()\<rparr>, Some ''cannot draw''), []) \<and>
   GeneratePageBlocks exHeadingFits exMerge exItem exReport exCtx [(''Preface'', 0, 0, 0)] =
     (Returned [[''1. Report'', ''sub'']] exCtx (Some ''cannot draw''),
      [(''Preface'', 0, 0, 0), (''Report'', 1, 0, 0), (''Sub'', 1, 1, 0)])"
proof -
  have inc: "includeInTOC exReport"
    by (simp add: exReport_eq)
  have hs: "headingStep exHeadingFits exReport exCtx = Inr ([[''1. Report'']], exCtx)"
    by (simp add: headingStep_def exHeadingFits_def exReport_eq)
  have cs: "contents exReport = [SubchapterPtr 4] @ ImagePtr 2 # [ParagraphPtr 3]"
    by (simp add: exReport_eq)
  have pre: "contentLoop exMerge exItem [SubchapterPtr 4] [[''1. Report'']] exCtx [] =
     (Returned [[''1. Report'', ''sub'']] exCtx None, [(''Sub'', 1, 1, 0)])"
    by (simp add: loopBody_def exItem_def exMerge_def exCtx_def)
  have fail: "exItem (ImagePtr 2) exCtx =
     (([[''lost'']], \<lparr>Page = 1, Rest = ()\<rparr>, Some ''cannot draw''), [])"
    by (simp add: exItem_def exCtx_def)
  from GeneratePageBlocks_error_keeps_entry [where H = exHeadingFits and chap = exReport
      and ctxIn = exCtx and M = exMerge and G = exItem and t = "[(''Preface'', 0, 0, 0)]",
      OF inc hs cs pre fail]
  have "GeneratePageBlocks exHeadingFits exMerge exItem exReport exCtx [(''Preface'', 0, 0, 0)] =
     (Returned [[''1. Report'', ''sub'']] exCtx (Some ''cannot draw''),
      [(''Preface'', 0, 0, 0), (''Report'', 1, 0, 0), (''Sub'', 1, 1, 0)])"
    by (simp add: exReport_eq exCtx_def)
  with inc hs cs pre fail show ?thesis by blast
qed

subsection \<open>Facts about the chapter's methods\<close>

lemma Add_accepted:
  "accepted d \<Longrightarrow> Add self d chap = (chap\<lparr>contents := contents chap @ [d]\<rparr>, [])"
  by (cases d) (simp_all add: Add_def)

lemma Add_rejected:
  "\<not> accepted d \<Longrightarrow> fst (Add self d chap) = chap"
  by (cases d) (simp_all add: Add_def)

lemma performAll_Nil: "performAll self [] chap = chap"
  by (simp add: performAll_def)

lemma performAll_Cons: "performAll self (c # cs) chap = performAll self cs (perform self c chap)"
  by (simp add: performAll_def)


lemma contents_Adds:
  "contents (performAll self (map CallAdd ds) chap) = contents chap @ filter accepted ds"
proof (induction ds arbitrary: chap)
  case Nil
  then show ?case by (simp add: performAll_Nil)
next
  case (Cons d ds)
  show ?case
  proof (cases "accepted d")
    case True
    then show ?thesis by (simp add: performAll_Cons Cons.IH Add_accepted)
  next
    case False
    then show ?thesis by (simp add: performAll_Cons Cons.IH Add_rejected)
  qed
qed





lemma Height_setters:
  fixes hgt :: "Drawable \<Rightarrow> 'f::{zero,plus}"
  shows "Height hgt chap = foldl (+) 0 (map hgt (contents chap))"
    and "Height hgt (chap\<lparr>heading := p\<rparr>) = Height hgt chap"
    and "Height hgt (fst (NewChapter c ttl)) = 0"
    and "accepted d \<Longrightarrow> Height hgt (fst (Add self d chap)) = Height hgt chap + hgt d"
    and "Height hgt (SetShowNumbering b chap) = Height hgt chap"
    and "Height hgt (SetIncludeInTOC b chap) = Height hgt chap"
  by (simp_all add: Height_def foldl_map SetShowNumbering_def SetIncludeInTOC_def Add_accepted
      NewChapter_def Let_def)

lemma foldl_mathMax_Finite:
  "\<forall>d\<in>set ds. wd d = Finite (w d) \<Longrightarrow>
   foldl (\<lambda>maxW d. mathMax maxW (wd d)) (Finite z) ds = Finite (Max (insert z (w ` set ds)))"
proof (induction ds arbitrary: z)
  case Nil
  then show ?case by simp
next
  case (Cons d ds)
  have "Max (insert (max z (w d)) (w ` set ds)) = Max (insert z (insert (w d) (w ` set ds)))"
    by (cases "ds = []") (simp_all add: max.assoc)
  with Cons show ?case by (simp add: mathMax_def)
qed

lemma Width_finite:
  "\<forall>d\<in>set (contents chap). wd d = Finite (w d) \<Longrightarrow>
   Width wd chap = Finite (Max (insert 0 (w ` set (contents chap))))"
  by (simp add: Width_def foldl_mathMax_Finite)

lemma Width_empty: "contents chap = [] \<Longrightarrow> Width wd chap = Finite 0"
  by (simp add: Width_def)

subsection \<open>Add\<close>

text \<open>
  Claim C6. \<^verbatim>\<open>Add\<close> leaves the chapter as it is when the argument is the chapter itself,
  another chapter, or of a kind outside paragraph, image, block and subchapter; it appends
  an argument of an accepted kind at the end of the contents. A sequence of calls of
  \<^verbatim>\<open>Add\<close> therefore leaves the earlier contents followed by the accepted arguments, in the
  order of the calls. The method has no result: nothing signals the rejection to the
  caller (the model returns the chapter and the log lines only).
\<close>

theorem Add_contents:
  "(d = ChapterPtr self \<longrightarrow> fst (Add self d chap) = chap) \<and>
   (d = ChapterPtr p \<longrightarrow> fst (Add self d chap) = chap) \<and>
   (\<not> accepted d \<longrightarrow> fst (Add self d chap) = chap) \<and>
   (accepted d \<longrightarrow> fst (Add self d chap) = chap\<lparr>contents := contents chap @ [d]\<rparr>) \<and>
   contents (performAll self (map CallAdd ds) chap) = contents chap @ filter accepted ds"
  by (simp add: Add_accepted Add_rejected contents_Adds)

theorem Add_contents_witness:
  "contents exIntro = [ParagraphPtr 1] \<and>
   fst (Add 100 (ChapterPtr 100) exIntro) = exIntro \<and>
   fst (Add 100 (ChapterPtr 5) exIntro) = exIntro \<and>
   \<not> accepted NilDrawable \<and> fst (Add 100 NilDrawable exIntro) = exIntro \<and>
   accepted (ImagePtr 2) \<and>
   contents (fst (Add 100 (ImagePtr 2) exIntro)) = [ParagraphPtr 1, ImagePtr 2] \<and>
   contents (performAll 100
       (map CallAdd [ImagePtr 2, ChapterPtr 100, BlockPtr 3, OtherDrawable 0 9, SubchapterPtr 4])
       exIntro) =
     [ParagraphPtr 1, ImagePtr 2, BlockPtr 3, SubchapterPtr 4]"
proof -
  have c: "contents exIntro = [ParagraphPtr 1]"
    by (simp add: exIntro_def Add_def NewChapter_def Let_def)
  have n: "\<not> accepted NilDrawable" and i: "accepted (ImagePtr 2)"
    by simp_all
  from Add_contents [of "ChapterPtr 100" 100 exIntro 100 "[]"]
  have a: "fst (Add 100 (ChapterPtr 100) exIntro) = exIntro" by simp
  from Add_contents [of "ChapterPtr 5" 100 exIntro 5 "[]"]
  have b: "fst (Add 100 (ChapterPtr 5) exIntro) = exIntro" by simp
  from Add_contents [of NilDrawable 100 exIntro 0 "[]"] n
  have d: "fst (Add 100 NilDrawable exIntro) = exIntro" by simp
  from Add_contents [of "ImagePtr 2" 100 exIntro 0
      "[ImagePtr 2, ChapterPtr 100, BlockPtr 3, OtherDrawable 0 9, SubchapterPtr 4]"] i c
  have e: "contents (fst (Add 100 (ImagePtr 2) exIntro)) = [ParagraphPtr 1, ImagePtr 2]"
    and f: "contents (performAll 100
       (map CallAdd [ImagePtr 2, ChapterPtr 100, BlockPtr 3, OtherDrawable 0 9, SubchapterPtr 4])
       exIntro) = [ParagraphPtr 1, ImagePtr 2, BlockPtr 3, SubchapterPtr 4]"
    by simp_all
  from c a b n d i e f show ?thesis by blast
qed

subsection \<open>Height and width\<close>

text \<open>
  Claim C7: the height of a chapter is the sum of the heights of its content items,
  without the heading, and no setter changes it; the width is the maximum width among the
  content items, or zero for empty contents. The height is as claimed (\<open>Height_setters\<close>),
  and so is the width of empty contents (\<open>Width_empty\<close>). The width of non-empty contents
  is not: the doc comment of line 110 says that the chapter width is the maximum of the
  content widths, but the loop seeds its running maximum with \<^verbatim>\<open>float64(0)\<close>. Evaluated
  on the chapter Intro, whose one paragraph reports the width -1: \<^verbatim>\<open>Width\<close> returns 0,
  which is the width of no content item, where the maximum among them is -1.
\<close>

theorem Width_seeded_with_zero:
  "contents exIntro = [ParagraphPtr 1] \<and>
   exWidth (ParagraphPtr 1) = Finite (- 1) \<and>
   mathMax (Finite 0) (Finite (- 1)) = Finite 0 \<and>
   Width exWidth exIntro = Finite 0 \<and>
   Width exWidth exIntro \<noteq> exWidth (ParagraphPtr 1)"
  by (simp add: Width_def mathMax_def exWidth_def exIntro_eq)

subsection \<open>The heading text\<close>



end
